theory Spec2Isabelle
  imports Complex_Main
begin

section \<open>Data model\<close>

text \<open>
  The spectrometer front end consists of \<^verbatim>\<open>SerialHandler\<close> (serial_handler.py), which owns
  the serial port, the poll timer and the flag \<^verbatim>\<open>scan_active\<close>, and of \<^verbatim>\<open>DataProcessor\<close>
  (data_processor.py), which owns \<^verbatim>\<open>data_points\<close> and \<^verbatim>\<open>metrics\<close>.  The main window
  (main_application.py, lines 56 and 271-273) connects the signal \<^verbatim>\<open>data_received\<close> to
  \<^verbatim>\<open>add_data_point\<close>, so one record holds the state of both objects.

  Modelling decisions.
  \<^item> Samples are Python integers (\<open>int\<close>).  They reach the store through the signal
    \<^verbatim>\<open>data_received = pyqtSignal(int, int)\<close> only, which hands a C \<^verbatim>\<open>int\<close> to the slot: the
    model reduces both values to 32 bits there (\<open>int32\<close>).
  \<^item> \<^verbatim>\<open>np.array\<close> makes int64 arrays of such samples.  Every integer operation of numpy
    (sum, product, difference) wraps around at 64 bits, and that is written out (\<open>int64\<close>).
  \<^item> numpy's float64 values are read as the reals they denote.  Rounding is not modelled,
    so a metric of the model is the metric of the code wherever the float64 operations
    involved are exact; the theorems below are about such inputs, and for the area the
    exactness is proved (\<open>trapezoid_terms_float64_exact\<close>).
  \<^item> Decoded text is a \<open>string\<close>; a \<open>char\<close> stands for a code point below 256.
  \<^item> What the hardware does is an argument of the operation that asks for it: the outcome
    of a write (\<open>io\<close>) and of a poll's read (\<open>rx\<close>).
  \<^item> Every call on the port or the timer and every emitted signal is appended to \<open>trace\<close>,
    in the order in which it happens.
\<close>

record metrics_rec =
  peak_value :: real
  centroid :: real
  max_intensity :: real
  fwhm :: real
  snr :: real
  auc :: real

record serial =
  device :: string
  baudrate :: int
  is_open :: bool

datatype effect =
    PortOpen string int
  | PortWrite string
  | PortClose
  | TimerStart nat
  | TimerStop
  | Stdout string
  | DataReceived int int
  | MetricsUpdated metrics_rec
  | ConnectionStatusChanged bool string string
  | ErrorOccurred string

text \<open>Outcome of a call that may raise: \<open>Fails msg\<close> is an exception whose \<^verbatim>\<open>str\<close> is \<open>msg\<close>.\<close>

datatype io = Ok | Fails string

text \<open>
  What one poll finds on the port: \<^verbatim>\<open>in_waiting\<close> is zero; or \<^verbatim>\<open>in_waiting\<close> is non-zero and
  \<^verbatim>\<open>readline().decode(errors='ignore')\<close> gives the text; or \<^verbatim>\<open>in_waiting\<close> or \<^verbatim>\<open>readline\<close>
  raises.  The port is opened with \<^verbatim>\<open>timeout=1\<close>, so \<^verbatim>\<open>readline\<close> may return text that does
  not end in a line feed.
\<close>

datatype rx = NothingWaiting | Line string | ReadFails string

record system =
  serial_port :: "serial option"
  timer_active :: bool
  scan_active :: bool
  data_points :: "(int \<times> int) list"
  metrics :: metrics_rec
  trace :: "effect list"

definition emit :: "effect \<Rightarrow> system \<Rightarrow> system" where
  "emit e s = s\<lparr>trace := trace s @ [e]\<rparr>"

section \<open>Python strings\<close>

definition LF :: char where
  "LF = CHR 0x0A"

text \<open>\<^verbatim>\<open>str.isspace\<close> on the code points below 256.\<close>

definition py_isspace :: "char \<Rightarrow> bool" where
  "py_isspace c = (c \<in> set [CHR 0x09, CHR 0x0A, CHR 0x0B, CHR 0x0C, CHR 0x0D,
     CHR 0x1C, CHR 0x1D, CHR 0x1E, CHR 0x1F, CHR 0x20, CHR 0x85, CHR 0xA0])"

definition str_strip :: "string \<Rightarrow> string" where
  "str_strip s = rev (dropWhile py_isspace (rev (dropWhile py_isspace s)))"

definition str_startswith :: "string \<Rightarrow> string \<Rightarrow> bool" where
  "str_startswith s p = (take (length p) s = p)"

text \<open>\<^verbatim>\<open>s.split(sep)\<close> for a one-character separator: always at least one piece.\<close>

fun str_split :: "string \<Rightarrow> char \<Rightarrow> string list" where
  "str_split [] sep = [[]]"
| "str_split (c # cs) sep =
     (if c = sep then [] # str_split cs sep
      else (case str_split cs sep of
              [] \<Rightarrow> [[c]]
            | p # ps \<Rightarrow> (c # p) # ps))"

definition is_digit :: "char \<Rightarrow> bool" where
  "is_digit c = (c \<in> set ''0123456789'')"

text \<open>The digit part of a decimal literal: digits, with single underscores between them.\<close>

fun py_digits :: "string \<Rightarrow> bool" where
  "py_digits [] = False"
| "py_digits [c] = is_digit c"
| "py_digits (c # d # cs) =
     (is_digit c \<and> (if d = CHR ''_'' then py_digits cs else py_digits (d # cs)))"

definition digits_value :: "string \<Rightarrow> int" where
  "digits_value ds =
     foldl (\<lambda>n c. 10 * n + (int (of_char c) - 48)) 0 (filter (\<lambda>c. c \<noteq> CHR ''_'') ds)"

text \<open>Decimal text of a number, as \<^verbatim>\<open>str\<close> and \<^verbatim>\<open>repr\<close> print an \<^verbatim>\<open>int\<close>.\<close>

fun str_of_nat :: "nat \<Rightarrow> string" where
  "str_of_nat n =
     (if n < 10 then [''0123456789'' ! n]
      else str_of_nat (n div 10) @ [''0123456789'' ! (n mod 10)])"

declare str_of_nat.simps [simp del]

definition str_of_int :: "int \<Rightarrow> string" where
  "str_of_int i = (if i < 0 then CHR ''-'' # str_of_nat (nat (- i)) else str_of_nat (nat i))"

text \<open>
  \<^verbatim>\<open>repr\<close> of a string.  The quote is the apostrophe, unless the string holds an apostrophe
  and no double quote.  The quote and the backslash are escaped by a backslash; tab, line
  feed and carriage return are written \<^verbatim>\<open>\t\<close>, \<^verbatim>\<open>\n\<close>, \<^verbatim>\<open>\r\<close>; every other code point that is
  not printable (below 32, from 127 to 160, and 173) is written \<^verbatim>\<open>\xhh\<close>.
\<close>

definition hex_digit :: "nat \<Rightarrow> char" where
  "hex_digit n = ''0123456789abcdef'' ! n"

definition py_printable :: "char \<Rightarrow> bool" where
  "py_printable c =
     (32 \<le> (of_char c :: nat) \<and> (of_char c :: nat) \<noteq> 173
      \<and> ((of_char c :: nat) < 127 \<or> 160 < (of_char c :: nat)))"

definition repr_char :: "char \<Rightarrow> char \<Rightarrow> string" where
  "repr_char q c =
     (if c = q \<or> c = CHR 0x5C then [CHR 0x5C, c]
      else if c = CHR 0x09 then [CHR 0x5C, CHR ''t'']
      else if c = CHR 0x0A then [CHR 0x5C, CHR ''n'']
      else if c = CHR 0x0D then [CHR 0x5C, CHR ''r'']
      else if py_printable c then [c]
      else [CHR 0x5C, CHR ''x'', hex_digit (of_char c div 16), hex_digit (of_char c mod 16)])"

definition py_repr :: "string \<Rightarrow> string" where
  "py_repr s =
     (let q = (if CHR 0x27 \<in> set s \<and> CHR 0x22 \<notin> set s then CHR 0x22 else CHR 0x27)
      in q # concat (map (repr_char q) s) @ [q])"

text \<open>
  The text of the \<^verbatim>\<open>ValueError\<close> of \<^verbatim>\<open>int\<close>: the format is \<^verbatim>\<open>%.200R\<close>, the first 200
  characters of the \<^verbatim>\<open>repr\<close> of the argument.
\<close>

definition value_error :: "string \<Rightarrow> string" where
  "value_error tok = ''invalid literal for int() with base 10: '' @ take 200 (py_repr tok)"

text \<open>
  The interpreter refuses to convert more than 4300 digits (the default of
  \<^verbatim>\<open>sys.set_int_max_str_digits\<close>), with a \<^verbatim>\<open>ValueError\<close> of its own.
\<close>

definition max_str_digits :: nat where
  "max_str_digits = 4300"

definition digit_limit_error :: "nat \<Rightarrow> string" where
  "digit_limit_error n =
     ''Exceeds the limit (4300 digits) for integer string conversion: value has ''
       @ str_of_nat n @ '' digits; use sys.set_int_max_str_digits() to increase the limit''"

text \<open>
  The whitespace that \<^verbatim>\<open>int\<close> skips around the number.  It is not that of \<^verbatim>\<open>str.strip\<close>:
  \<^verbatim>\<open>int\<close> replaces the white space from code point 127 on by a blank and then skips the
  C whitespace (9 to 13 and 32), so the separators 28 to 31 are not skipped.
\<close>

definition int_isspace :: "char \<Rightarrow> bool" where
  "int_isspace c = (c \<in> set [CHR 0x09, CHR 0x0A, CHR 0x0B, CHR 0x0C, CHR 0x0D, CHR 0x20,
     CHR 0x85, CHR 0xA0])"

definition int_strip :: "string \<Rightarrow> string" where
  "int_strip s = rev (dropWhile int_isspace (rev (dropWhile int_isspace s)))"

text \<open>The digits after the sign: \<open>s\<close> is the whole argument, for the error text.\<close>

definition py_int_digits :: "int \<Rightarrow> string \<Rightarrow> string \<Rightarrow> string + int" where
  "py_int_digits sign body s =
     (if \<not> py_digits body then Inl (value_error s)
      else if max_str_digits < length (filter is_digit body)
      then Inl (digit_limit_error (length (filter is_digit body)))
      else Inr (sign * digits_value body))"

text \<open>
  \<^verbatim>\<open>int(s)\<close> on a string: the surrounding whitespace is skipped, one sign is allowed, then
  the digits.  \<open>Inl\<close> is the \<^verbatim>\<open>ValueError\<close> with its text.  Below code point 256 the only
  decimal digits are the ASCII ones.
\<close>

definition py_int :: "string \<Rightarrow> string + int" where
  "py_int s =
     (case int_strip s of
        [] \<Rightarrow> Inl (value_error s)
      | c # cs \<Rightarrow>
          if c = CHR ''-'' then py_int_digits (- 1) cs s
          else if c = CHR ''+'' then py_int_digits 1 cs s
          else py_int_digits 1 (c # cs) s)"

section \<open>numpy on lists\<close>

text \<open>
  The value of a 64-bit two's complement integer: numpy's int64 arithmetic keeps the low 64
  bits of every sum, difference and product.  \<open>int32\<close> is the same for a C \<^verbatim>\<open>int\<close>.
\<close>

definition int64 :: "int \<Rightarrow> int" where
  "int64 x = (x + 9223372036854775808) mod 18446744073709551616 - 9223372036854775808"

definition int32 :: "int \<Rightarrow> int" where
  "int32 x = (x + 2147483648) mod 4294967296 - 2147483648"

text \<open>
  \<^verbatim>\<open>np.max\<close> and \<^verbatim>\<open>np.argmax\<close> raise on an empty array; \<^verbatim>\<open>calculate_metrics\<close> returns before
  it reaches them when there is no data point, so they are only used on non-empty lists.
  They work on integer arrays and on boolean arrays (\<open>False < True\<close>) alike.
\<close>

definition np_max :: "'a::linorder list \<Rightarrow> 'a" where
  "np_max xs = fold max (tl xs) (hd xs)"

text \<open>The first index that attains the maximum.\<close>

definition np_argmax :: "'a::linorder list \<Rightarrow> nat" where
  "np_argmax xs = length (takeWhile (\<lambda>x. x \<noteq> np_max xs) xs)"

definition np_any :: "bool list \<Rightarrow> bool" where
  "np_any bs = (True \<in> set bs)"

text \<open>Boolean mask indexing \<^verbatim>\<open>a[mask]\<close>.\<close>

definition np_mask :: "'a list \<Rightarrow> bool list \<Rightarrow> 'a list" where
  "np_mask xs bs = map fst (filter snd (zip xs bs))"

text \<open>\<^verbatim>\<open>np.sum\<close> of an int64 array, and the product \<^verbatim>\<open>a * b\<close> of two of them.\<close>

definition np_sum :: "int list \<Rightarrow> int" where
  "np_sum xs = fold (\<lambda>x acc. int64 (acc + x)) xs 0"

definition np_multiply :: "int list \<Rightarrow> int list \<Rightarrow> int list" where
  "np_multiply xs ys = map2 (\<lambda>a b. int64 (a * b)) xs ys"

definition np_diff :: "int list \<Rightarrow> int list" where
  "np_diff xs = map2 (\<lambda>a b. int64 (a - b)) (tl xs) (butlast xs)"

text \<open>
  \<^verbatim>\<open>np.trapezoid(y, x)\<close>, as numpy computes it:
  \<^verbatim>\<open>d = diff(x); ret = (d * (y[1:] + y[:-1]) / 2.0).sum()\<close>.
  The difference, the sum of neighbours and their product are int64 operations; the division
  by \<^verbatim>\<open>2.0\<close> and the final sum are float64 operations.
\<close>

definition np_trapezoid_terms :: "int list \<Rightarrow> int list \<Rightarrow> real list" where
  "np_trapezoid_terms y x =
     map2 (\<lambda>d s. real_of_int (int64 (d * s)) / 2) (np_diff x)
       (map2 (\<lambda>a b. int64 (a + b)) (tl y) (butlast y))"

definition np_trapezoid :: "int list \<Rightarrow> int list \<Rightarrow> real" where
  "np_trapezoid y x = sum_list (np_trapezoid_terms y x)"

definition np_mean :: "real list \<Rightarrow> real" where
  "np_mean xs = sum_list xs / real (length xs)"

text \<open>\<^verbatim>\<open>np.std\<close>: the population standard deviation.\<close>

definition np_std :: "int list \<Rightarrow> real" where
  "np_std xs =
     (let rs = map real_of_int xs; m = np_mean rs
      in sqrt (np_mean (map (\<lambda>r. (r - m)\<^sup>2) rs)))"

section \<open>DataProcessor\<close>

definition reset_metrics :: metrics_rec where
  "reset_metrics =
     \<lparr>peak_value = 0, centroid = 0, max_intensity = 0, fwhm = 0, snr = 0, auc = 0\<rparr>"

definition calculate_metrics :: "(int \<times> int) list \<Rightarrow> metrics_rec" where
  "calculate_metrics points =
     (if points = [] then reset_metrics
      else
        let wavelengths = map fst points;
            intensities = map snd points;
            maxi = np_max intensities;
            peak_idx = np_argmax intensities;
            peak = wavelengths ! peak_idx;
            cen = (if np_sum intensities > 0
                   then real_of_int (np_sum (np_multiply wavelengths intensities))
                          / real_of_int (np_sum intensities)
                   else 0);
            half_max = real_of_int maxi / 2;
            above_half = map (\<lambda>i. real_of_int i > half_max) intensities;
            width =
              (if np_any above_half then
                 let left_idx = int (np_argmax above_half);
                     right_idx = int (length above_half) - int (np_argmax (rev above_half)) - 1
                 in if right_idx > left_idx
                    then real_of_int
                           (int64 (wavelengths ! nat right_idx - wavelengths ! nat left_idx))
                    else 0
               else 0);
            area = (if length wavelengths > 1 then np_trapezoid intensities wavelengths else 0);
            noise_region = map (\<lambda>i. real_of_int i < real_of_int maxi * (1 / 10)) intensities;
            ratio =
              (if np_any noise_region \<and> length (np_mask intensities noise_region) > 1 then
                 let noise_std = np_std (np_mask intensities noise_region)
                 in if noise_std > 0 then real_of_int maxi / noise_std else 0
               else 0)
        in \<lparr>peak_value = real_of_int peak, centroid = cen, max_intensity = real_of_int maxi,
            fwhm = width, snr = ratio, auc = area\<rparr>)"

definition add_data_point :: "int \<Rightarrow> int \<Rightarrow> system \<Rightarrow> system" where
  "add_data_point x y s =
     (let s1 = s\<lparr>data_points := data_points s @ [(x, y)]\<rparr>;
          s2 = s1\<lparr>metrics := calculate_metrics (data_points s1)\<rparr>
      in emit (MetricsUpdated (metrics s2)) s2)"

definition clear_data :: "system \<Rightarrow> system" where
  "clear_data s =
     (let s1 = s\<lparr>data_points := [], metrics := reset_metrics\<rparr>
      in emit (MetricsUpdated (metrics s1)) s1)"

section \<open>SerialHandler\<close>

text \<open>\<^verbatim>\<open>__init__\<close> of both objects: no port, timer idle, no data, all metrics zero.\<close>

definition init :: system where
  "init = \<lparr>serial_port = None, timer_active = False, scan_active = False,
            data_points = [], metrics = reset_metrics, trace = []\<rparr>"

definition start_frame :: string where
  "start_frame = ''d#101#1002'' @ [LF]"

definition stop_frame :: string where
  "stop_frame = ''STOP'' @ [LF]"

definition is_connected :: "system \<Rightarrow> bool" where
  "is_connected s = (case serial_port s of None \<Rightarrow> False | Some p \<Rightarrow> is_open p)"

text \<open>
  \<^verbatim>\<open>stop_scan\<close>.  The write, \<^verbatim>\<open>timer.stop()\<close> and the assignment to \<^verbatim>\<open>scan_active\<close> are
  inside one \<^verbatim>\<open>try\<close>: a write that raises skips the other two.
\<close>

definition stop_scan :: "io \<Rightarrow> system \<Rightarrow> system" where
  "stop_scan wr s =
     (if \<not> scan_active s then s
      else if is_connected s then
        (let s1 = emit (PortWrite stop_frame) s in
         case wr of
           Fails e \<Rightarrow> emit (ErrorOccurred (''Error stopping scan: '' @ e)) s1
         | Ok \<Rightarrow> (emit TimerStop s1)\<lparr>timer_active := False, scan_active := False\<rparr>)
      else (emit TimerStop s)\<lparr>timer_active := False, scan_active := False\<rparr>)"

definition disconnect :: "io \<Rightarrow> system \<Rightarrow> system" where
  "disconnect wr s =
     (if is_connected s then
        let s1 = stop_scan wr s;
            s2 = (emit PortClose s1)
                   \<lparr>serial_port := map_option (\<lambda>p. p\<lparr>is_open := False\<rparr>) (serial_port s1)\<rparr>
        in emit (ConnectionStatusChanged False [] []) s2
      else s)"

text \<open>
  What opening the device does: it succeeds, it raises a \<^verbatim>\<open>SerialException\<close>, or it raises
  another exception (pyserial raises \<^verbatim>\<open>ValueError\<close> for a baud rate the platform cannot set).
\<close>

datatype open_result = Opened | OpenFails string | OpenRaises string

text \<open>
  \<^verbatim>\<open>connect_to_port\<close>.  Only \<^verbatim>\<open>SerialException\<close> is caught.  An exception of another class
  leaves the method (\<open>Inl\<close>) after the old port has been disconnected: the \<^verbatim>\<open>ValueError\<close> of
  \<^verbatim>\<open>int(baud_rate)\<close>, the \<^verbatim>\<open>ValueError\<close> with which \<^verbatim>\<open>serial.Serial\<close> refuses a negative baud
  rate before it opens anything, and what opening the device may raise.
\<close>

definition connect_to_port ::
    "string \<Rightarrow> string \<Rightarrow> open_result \<Rightarrow> io \<Rightarrow> system \<Rightarrow> (string + bool) \<times> system" where
  "connect_to_port port baud_rate opn wr s =
     (let s1 = (if is_connected s then disconnect wr s else s) in
      case py_int baud_rate of
        Inl e \<Rightarrow> (Inl e, s1)
      | Inr b \<Rightarrow>
          if b < 0 then (Inl (''Not a valid baudrate: '' @ str_of_int b), s1)
          else
            (let s2 = emit (PortOpen port b) s1 in
             case opn of
               Opened \<Rightarrow>
                 (Inr True,
                  emit (ConnectionStatusChanged True port baud_rate)
                    (s2\<lparr>serial_port := Some \<lparr>device = port, baudrate = b, is_open = True\<rparr>\<rparr>))
             | OpenFails e \<Rightarrow>
                 (Inr False,
                  emit (ConnectionStatusChanged False [] [])
                    (emit (ErrorOccurred e) (s2\<lparr>serial_port := None\<rparr>)))
             | OpenRaises e \<Rightarrow> (Inl e, s2)))"

definition start_scan :: "io \<Rightarrow> system \<Rightarrow> bool \<times> system" where
  "start_scan wr s =
     (if \<not> is_connected s then (False, emit (ErrorOccurred ''No serial connection available'') s)
      else if scan_active s then (True, s)
      else
        (let s1 = emit (PortWrite start_frame) s in
         case wr of
           Fails e \<Rightarrow> (False, emit (ErrorOccurred (''Failed to start scan: '' @ e)) s1)
         | Ok \<Rightarrow> (True, (emit (TimerStart 100) s1)\<lparr>scan_active := True, timer_active := True\<rparr>)))"

text \<open>
  The signal \<^verbatim>\<open>data_received\<close> is connected to \<^verbatim>\<open>on_data_received\<close>, which calls
  \<^verbatim>\<open>add_data_point\<close> before \<^verbatim>\<open>emit\<close> returns.  The signal is declared
  \<^verbatim>\<open>pyqtSignal(int, int)\<close>: its arguments are C \<^verbatim>\<open>int\<close>s, so the slot receives the values
  reduced to 32 bits.  The trace records the event as the slot sees it.
\<close>

definition data_received :: "int \<Rightarrow> int \<Rightarrow> system \<Rightarrow> system" where
  "data_received x y s =
     add_data_point (int32 x) (int32 y) (emit (DataReceived (int32 x) (int32 y)) s)"

text \<open>The \<^verbatim>\<open>except Exception\<close> branch of \<^verbatim>\<open>_read_serial_data\<close>: report, then \<^verbatim>\<open>stop_scan\<close>.\<close>

definition read_failed :: "string \<Rightarrow> io \<Rightarrow> system \<Rightarrow> system" where
  "read_failed e wr s = stop_scan wr (emit (ErrorOccurred (''Error reading serial data: '' @ e)) s)"

text \<open>
  \<^verbatim>\<open>_read_serial_data\<close>.  \<open>wr\<close> is the outcome of the write of the stop frame, should the
  handler reach it.  Both calls of \<^verbatim>\<open>int\<close> are inside the \<^verbatim>\<open>try\<close>.
\<close>

definition read_serial_data :: "rx \<Rightarrow> io \<Rightarrow> system \<Rightarrow> system" where
  "read_serial_data r wr s =
     (if \<not> is_connected s \<or> \<not> scan_active s then (emit TimerStop s)\<lparr>timer_active := False\<rparr>
      else
        case r of
          ReadFails e \<Rightarrow> read_failed e wr s
        | NothingWaiting \<Rightarrow> s
        | Line raw \<Rightarrow>
            (let line = str_strip raw;
                 s1 = emit (Stdout (''Received: '' @ line)) s
             in if str_startswith line ''d#'' then
                  (let parts = str_split line (CHR ''#'')
                   in if length parts = 3 then
                        (case py_int (parts ! 1) of
                           Inl e \<Rightarrow> read_failed e wr s1
                         | Inr x \<Rightarrow>
                             (case py_int (parts ! 2) of
                                Inl e \<Rightarrow> read_failed e wr s1
                              | Inr y \<Rightarrow> data_received x y s1))
                      else s1)
                else s1))"

text \<open>The timer calls \<^verbatim>\<open>_read_serial_data\<close> only while it is running.\<close>

definition timeout :: "rx \<Rightarrow> io \<Rightarrow> system \<Rightarrow> system" where
  "timeout r wr s = (if timer_active s then read_serial_data r wr s else s)"

text \<open>A run of the event loop over successive timer intervals.\<close>

fun poll :: "(rx \<times> io) list \<Rightarrow> system \<Rightarrow> system" where
  "poll [] s = s"
| "poll ((r, wr) # rs) s = poll rs (timeout r wr s)"

text \<open>A connected handler with a scan running: the state after connecting and \<^verbatim>\<open>start_scan\<close>.\<close>

definition scanning :: system where
  "scanning = snd (start_scan Ok (snd (connect_to_port ''COM3'' ''9600'' Opened Ok init)))"

section \<open>Observing traces\<close>

text \<open>The effects that happened between state \<open>s\<close> and a later state \<open>s'\<close>.\<close>

definition effects :: "system \<Rightarrow> system \<Rightarrow> effect list" where
  "effects s s' = drop (length (trace s)) (trace s')"

text \<open>Some occurrence of \<open>a\<close> comes strictly before some occurrence of \<open>b\<close>.\<close>

fun occurs_before :: "effect \<Rightarrow> effect \<Rightarrow> effect list \<Rightarrow> bool" where
  "occurs_before a b [] = False"
| "occurs_before a b (e # es) = ((e = a \<and> b \<in> set es) \<or> occurs_before a b es)"

definition is_sample :: "effect \<Rightarrow> bool" where
  "is_sample e = (case e of DataReceived x y \<Rightarrow> True | _ \<Rightarrow> False)"

section \<open>The trapezoidal rule\<close>

text \<open>
  The integral of intensity over wavelength by the trapezoidal rule, over the samples in
  the order in which they were inserted: each pair of neighbours contributes the width
  between their wavelengths times the mean of their intensities.
\<close>

fun trapezoidal_integral :: "(int \<times> int) list \<Rightarrow> real" where
  "trapezoidal_integral (p # q # ps) =
     real_of_int (fst q - fst p) * (real_of_int (snd p + snd q) / 2)
       + trapezoidal_integral (q # ps)"
| "trapezoidal_integral ps = 0"

text \<open>Every wavelength and every intensity is at most \<open>B\<close> in absolute value.\<close>

definition bounded_by :: "int \<Rightarrow> (int \<times> int) list \<Rightarrow> bool" where
  "bounded_by B ps = list_all (\<lambda>p. \<bar>fst p\<bar> \<le> B \<and> \<bar>snd p\<bar> \<le> B) ps"

section \<open>Evaluation\<close>

lemmas str_defs = py_int_def py_int_digits_def int_strip_def int_isspace_def str_strip_def
  py_isspace_def is_digit_def digits_value_def max_str_digits_def str_startswith_def
  value_error_def py_repr_def repr_char_def py_printable_def hex_digit_def LF_def Let_def

lemmas np_defs = calculate_metrics_def np_max_def np_argmax_def np_any_def np_mask_def
  np_trapezoid_def np_trapezoid_terms_def np_diff_def np_sum_def np_multiply_def int64_def
  reset_metrics_def

lemmas handler_defs = start_scan_def connect_to_port_def init_def is_connected_def emit_def
  start_frame_def stop_frame_def stop_scan_def disconnect_def read_serial_data_def
  read_failed_def data_received_def add_data_point_def timeout_def effects_def int32_def

lemma scanning_eq:
  "scanning =
     \<lparr>serial_port = Some \<lparr>device = ''COM3'', baudrate = 9600, is_open = True\<rparr>,
      timer_active = True, scan_active = True, data_points = [], metrics = reset_metrics,
      trace = [PortOpen ''COM3'' 9600, ConnectionStatusChanged True ''COM3'' ''9600'',
               PortWrite start_frame, TimerStart 100]\<rparr>"
  by (simp add: scanning_def handler_defs str_defs)

lemma scanning_connected: "is_connected scanning \<and> scan_active scanning"
  by (simp add: scanning_eq is_connected_def)

section \<open>The store follows the samples\<close>

lemma add_data_point_points: "data_points (add_data_point x y s) = data_points s @ [(x, y)]"
  by (simp add: add_data_point_def emit_def)

lemma add_data_point_metrics:
  "metrics (add_data_point x y s) = calculate_metrics (data_points s @ [(x, y)])"
  by (simp add: add_data_point_def emit_def)

section \<open>Lines that are dropped\<close>

text \<open>
  A line without the prefix, and a line that does not split into three pieces, is printed and
  dropped: nothing is emitted, the scan and the store stay as they are.
\<close>

lemma line_without_prefix_dropped:
  assumes "is_connected s" and "scan_active s"
    and "\<not> str_startswith (str_strip raw) ''d#''"
  shows "read_serial_data (Line raw) wr s = emit (Stdout (''Received: '' @ str_strip raw)) s"
  using assms by (simp add: read_serial_data_def)

lemma line_with_other_piece_count_dropped:
  assumes "is_connected s" and "scan_active s"
    and "length (str_split (str_strip raw) (CHR ''#'')) \<noteq> 3"
  shows "read_serial_data (Line raw) wr s = emit (Stdout (''Received: '' @ str_strip raw)) s"
  using assms by (simp add: read_serial_data_def Let_def)

text \<open>
  A line with the prefix and three pieces whose second piece is not an integer does not take
  that way: it is handled like a failed read.
\<close>

lemma non_integer_token_takes_failure_path:
  assumes "is_connected s" and "scan_active s"
    and "str_startswith (str_strip raw) ''d#''"
    and "length (str_split (str_strip raw) (CHR ''#'')) = 3"
    and "py_int (str_split (str_strip raw) (CHR ''#'') ! 1) = Inl e"
  shows "read_serial_data (Line raw) wr s
           = read_failed e wr (emit (Stdout (''Received: '' @ str_strip raw)) s)"
  using assms by (simp add: read_serial_data_def Let_def)

text \<open>A write of the stop frame that raises leaves the scan and the timer as they were.\<close>

lemma stop_scan_write_failure:
  assumes "is_connected s" and "scan_active s"
  shows "stop_scan (Fails e) s
           = emit (ErrorOccurred (''Error stopping scan: '' @ e)) (emit (PortWrite stop_frame) s)"
    and "scan_active (stop_scan (Fails e) s)"
    and "timer_active (stop_scan (Fails e) s) = timer_active s"
  using assms by (simp_all add: stop_scan_def emit_def)

lemma bad_prefix_then_good_line:
  "data_points (poll [(Line (''foo#1#2'' @ [LF]), Ok), (Line (''d#1#2'' @ [LF]), Ok)] scanning)
     = [(1, 2)]"
  by (simp add: scanning_eq handler_defs str_defs)

section \<open>numpy's trapezoid is the trapezoidal rule, while nothing overflows\<close>

lemma int64_id:
  "- 9223372036854775808 \<le> x \<Longrightarrow> x < 9223372036854775808 \<Longrightarrow> int64 x = x"
  by (simp add: int64_def)

lemma le_square: "0 \<le> (B::int) \<Longrightarrow> B \<le> B * B"
  by (cases "B = 0") (simp_all add: mult_le_cancel_left1)

text \<open>
  One trapezoid between neighbours \<open>(a, b)\<close> and \<open>(c, d)\<close>: with all four values at most \<open>B\<close>
  and \<open>4 * B * B\<close> at most \<open>2 ^ 52\<close>, none of the three int64 operations wraps.
\<close>

lemma trapezoid_step:
  fixes a b c d B :: int
  assumes "\<bar>a\<bar> \<le> B" "\<bar>b\<bar> \<le> B" "\<bar>c\<bar> \<le> B" "\<bar>d\<bar> \<le> B"
    and "4 * B * B \<le> 4503599627370496"
  shows "int64 (int64 (c - a) * int64 (d + b)) = (c - a) * (d + b)"
    and "\<bar>(c - a) * (d + b)\<bar> \<le> 4 * B * B"
proof -
  have B0: "0 \<le> B" using assms(1) by linarith
  have BB: "B \<le> B * B" using B0 by (rule le_square)
  have d1: "\<bar>c - a\<bar> \<le> 2 * B" using assms by linarith
  have d2: "\<bar>d + b\<bar> \<le> 2 * B" using assms by linarith
  have "\<bar>c - a\<bar> * \<bar>d + b\<bar> \<le> (2 * B) * (2 * B)"
    using d1 d2 B0 by (intro mult_mono) simp_all
  then show p: "\<bar>(c - a) * (d + b)\<bar> \<le> 4 * B * B"
    by (simp add: abs_mult)
  have i1: "int64 (c - a) = c - a"
    using d1 BB assms(5) by (intro int64_id) linarith+
  have i2: "int64 (d + b) = d + b"
    using d2 BB assms(5) by (intro int64_id) linarith+
  have "int64 ((c - a) * (d + b)) = (c - a) * (d + b)"
    using p assms(5) by (intro int64_id) linarith+
  then show "int64 (int64 (c - a) * int64 (d + b)) = (c - a) * (d + b)"
    by (simp add: i1 i2)
qed

lemma np_trapezoid_terms_Cons:
  "np_trapezoid_terms (map snd (p # q # ps)) (map fst (p # q # ps))
     = real_of_int (int64 (int64 (fst q - fst p) * int64 (snd q + snd p))) / 2
         # np_trapezoid_terms (map snd (q # ps)) (map fst (q # ps))"
  by (simp add: np_trapezoid_terms_def np_diff_def)

lemma np_trapezoid_terms_short:
  "length ps \<le> 1 \<Longrightarrow> np_trapezoid_terms (map snd ps) (map fst ps) = []"
  by (cases ps) (simp_all add: np_trapezoid_terms_def np_diff_def)

lemma np_trapezoid_integral:
  assumes "bounded_by B ps" and "4 * B * B \<le> 4503599627370496"
  shows "np_trapezoid (map snd ps) (map fst ps) = trapezoidal_integral ps"
  using assms(1)
proof (induction ps rule: trapezoidal_integral.induct)
  case (1 p q ps)
  have b: "\<bar>fst p\<bar> \<le> B" "\<bar>snd p\<bar> \<le> B" "\<bar>fst q\<bar> \<le> B" "\<bar>snd q\<bar> \<le> B"
    using "1.prems" by (simp_all add: bounded_by_def)
  have r: "bounded_by B (q # ps)"
    using "1.prems" by (simp add: bounded_by_def)
  have s: "int64 (int64 (fst q - fst p) * int64 (snd q + snd p))
             = (fst q - fst p) * (snd q + snd p)"
    using b assms(2) by (intro trapezoid_step(1))
  have "np_trapezoid (map snd (q # ps)) (map fst (q # ps)) = trapezoidal_integral (q # ps)"
    using "1.IH" r by simp
  then show ?case
    unfolding np_trapezoid_def np_trapezoid_terms_Cons s
    by (simp add: add.commute)
qed (simp_all add: np_trapezoid_def np_trapezoid_terms_def np_diff_def)

text \<open>
  The float64 part of \<^verbatim>\<open>np.trapezoid\<close> is exact on such samples.  With \<open>n\<close> samples at most
  \<open>B\<close> in absolute value and \<open>4 * B * B * n\<close> at most \<open>2 ^ 53\<close>, every term that is summed is
  half an integer, and the absolute values of all terms together are at most \<open>2 ^ 52\<close>.  So
  every term and every partial sum, in whatever order numpy adds, is half an integer of at
  most \<open>2 ^ 53\<close> in absolute value, which float64 represents: no operation rounds.
\<close>

lemma trapezoid_terms_float64_exact:
  assumes "bounded_by B ps" and "4 * B * B * int (length ps) \<le> 9007199254740992"
  shows "list_all (\<lambda>t. \<exists>k::int. t = real_of_int k / 2)
           (np_trapezoid_terms (map snd ps) (map fst ps))
       \<and> sum_list (map abs (np_trapezoid_terms (map snd ps) (map fst ps))) \<le> 4503599627370496"
proof (cases "length ps \<le> 1")
  case True
  then show ?thesis by (simp add: np_trapezoid_terms_short)
next
  case False
  then have n2: "2 \<le> int (length ps)" by simp
  have BB0: "0 \<le> 4 * B * B" by (simp add: mult.assoc)
  have "4 * B * B * 2 \<le> 4 * B * B * int (length ps)"
    using n2 BB0 by (intro mult_left_mono) simp_all
  then have small: "4 * B * B \<le> 4503599627370496"
    using assms(2) by linarith
  have nonneg: "0 \<le> real_of_int (2 * B * B)"
    by (simp add: mult.assoc)
  have main: "list_all (\<lambda>t. \<exists>k::int. t = real_of_int k / 2)
                (np_trapezoid_terms (map snd qs) (map fst qs))
            \<and> sum_list (map abs (np_trapezoid_terms (map snd qs) (map fst qs)))
                \<le> real_of_int (2 * B * B) * real (length qs)"
    if "bounded_by B qs" for qs
    using that
  proof (induction qs rule: trapezoidal_integral.induct)
    case (1 p q ps)
    have b: "\<bar>fst p\<bar> \<le> B" "\<bar>snd p\<bar> \<le> B" "\<bar>fst q\<bar> \<le> B" "\<bar>snd q\<bar> \<le> B"
      using "1.prems" by (simp_all add: bounded_by_def)
    have r: "bounded_by B (q # ps)"
      using "1.prems" by (simp add: bounded_by_def)
    have s: "int64 (int64 (fst q - fst p) * int64 (snd q + snd p))
               = (fst q - fst p) * (snd q + snd p)"
      using b small by (intro trapezoid_step(1))
    have m: "\<bar>(fst q - fst p) * (snd q + snd p)\<bar> \<le> 4 * B * B"
      using b small by (intro trapezoid_step(2))
    have "\<bar>real_of_int ((fst q - fst p) * (snd q + snd p))\<bar> \<le> real_of_int (4 * B * B)"
      using m by (metis of_int_abs of_int_le_iff)
    then have t: "\<bar>real_of_int ((fst q - fst p) * (snd q + snd p)) / 2\<bar>
                    \<le> real_of_int (2 * B * B)"
      by simp
    have ih: "list_all (\<lambda>t. \<exists>k::int. t = real_of_int k / 2)
                (np_trapezoid_terms (map snd (q # ps)) (map fst (q # ps)))"
      "sum_list (map abs (np_trapezoid_terms (map snd (q # ps)) (map fst (q # ps))))
          \<le> real_of_int (2 * B * B) * real (length (q # ps))"
      using "1.IH" r by simp_all
    define x where "x = real_of_int ((fst q - fst p) * (snd q + snd p)) / 2"
    define T where "T = np_trapezoid_terms (map snd (q # ps)) (map fst (q # ps))"
    have e: "\<exists>k::int. x = real_of_int k / 2"
      unfolding x_def by blast
    have "sum_list (map abs (x # T)) = \<bar>x\<bar> + sum_list (map abs T)"
      by simp
    also have "\<dots> \<le> real_of_int (2 * B * B) + real_of_int (2 * B * B) * real (length (q # ps))"
      using t ih(2) unfolding x_def T_def by linarith
    also have "\<dots> = real_of_int (2 * B * B) * real (length (p # q # ps))"
      by (simp add: algebra_simps)
    finally have u: "sum_list (map abs (x # T))
                       \<le> real_of_int (2 * B * B) * real (length (p # q # ps))" .
    have "list_all (\<lambda>t. \<exists>k::int. t = real_of_int k / 2) (x # T)"
      using e ih(1) unfolding T_def by simp
    then show ?case
      unfolding np_trapezoid_terms_Cons s using u unfolding x_def T_def by blast
  qed (use nonneg in \<open>simp_all add: np_trapezoid_terms_def np_diff_def\<close>)
  have "real_of_int (2 * B * B) * real (length ps) = real_of_int (2 * B * B * int (length ps))"
    by simp
  also have "\<dots> \<le> real_of_int 4503599627370496"
    using assms(2) by (intro of_int_le_iff [THEN iffD2]) linarith
  finally have "real_of_int (2 * B * B) * real (length ps) \<le> 4503599627370496"
    by simp
  then show ?thesis
    using main [OF assms(1)] by linarith
qed

section \<open>A failed read\<close>

text \<open>
  In every state with the port open and a scan active, a poll whose read fails reports the
  error and then runs \<^verbatim>\<open>stop_scan\<close>: the first two effects are the error event and the write
  of the stop frame, whatever that write does.
\<close>

lemma read_failure_effect_order:
  assumes "is_connected s" and "scan_active s"
  shows "read_serial_data (ReadFails e) wr s
           = stop_scan wr (emit (ErrorOccurred (''Error reading serial data: '' @ e)) s)"
    and "take 2 (effects s (read_serial_data (ReadFails e) wr s))
           = [ErrorOccurred (''Error reading serial data: '' @ e), PortWrite stop_frame]"
  using assms
  by (cases wr; simp add: read_serial_data_def read_failed_def stop_scan_def emit_def
      is_connected_def effects_def)+

section \<open>Claims\<close>

text \<open>
  C1.  Claimed: a malformed line is discarded without halting decoding.  That holds for a line
  without the prefix and for a line with another number of pieces (lemmas above).  A line with
  the prefix and three pieces whose token is not an integer takes another path: \<^verbatim>\<open>int\<close>
  raises inside the \<^verbatim>\<open>try\<close>, the handler for read failures reports an error and calls
  \<^verbatim>\<open>stop_scan\<close>.  At the lines \<^verbatim>\<open>d#abc#5\<close>, \<^verbatim>\<open>d#1#2\<close>: the first one ends the scan, and the
  well-formed second one is never decoded.
\<close>

theorem non_integer_token_halts_scan:
  "data_points (poll [(Line (''d#abc#5'' @ [LF]), Ok), (Line (''d#1#2'' @ [LF]), Ok)] scanning) = []
   \<and> \<not> scan_active
         (poll [(Line (''d#abc#5'' @ [LF]), Ok), (Line (''d#1#2'' @ [LF]), Ok)] scanning)
   \<and> \<not> timer_active
         (poll [(Line (''d#abc#5'' @ [LF]), Ok), (Line (''d#1#2'' @ [LF]), Ok)] scanning)
   \<and> effects scanning
         (poll [(Line (''d#abc#5'' @ [LF]), Ok), (Line (''d#1#2'' @ [LF]), Ok)] scanning)
       = [Stdout ''Received: d#abc#5'',
          ErrorOccurred (''Error reading serial data: '' @ value_error ''abc''),
          PortWrite stop_frame, TimerStop]"
  by (simp add: scanning_eq handler_defs str_defs)

text \<open>
  C2.  Claimed: when the write of the stop frame raises, \<^verbatim>\<open>stop_scan\<close> still halts polling
  and clears \<^verbatim>\<open>scan_active\<close>.  In the code the write comes first inside the \<^verbatim>\<open>try\<close>, so the
  exception skips \<^verbatim>\<open>timer.stop()\<close> and the assignment: the scan stays active, the timer keeps
  running, only the error is reported.
\<close>

theorem stop_scan_write_failure_keeps_scanning:
  "scan_active (stop_scan (Fails ''write timeout'') scanning)
   \<and> timer_active (stop_scan (Fails ''write timeout'') scanning)
   \<and> effects scanning (stop_scan (Fails ''write timeout'') scanning)
       = [PortWrite stop_frame, ErrorOccurred ''Error stopping scan: write timeout'']"
  by (simp add: scanning_eq handler_defs)

text \<open>
  C3.  Claimed: on a read failure the scan is stopped before the error is reported.  The
  handler does it the other way round.  At a read failure in the scanning state the error
  event is the first effect; neither the stop frame nor the timer stop precedes it; and in
  the state in which the error is reported the timer is still running and the scan is still
  active.  The slot connected to \<^verbatim>\<open>error_occurred\<close> (\<^verbatim>\<open>on_error_occurred\<close>) shows a modal
  message box, so \<^verbatim>\<open>stop_scan\<close> is not reached before the user closes it.  The other handlers
  put the state right first and report afterwards: the \<^verbatim>\<open>except\<close> branch of
  \<^verbatim>\<open>connect_to_port\<close> clears \<^verbatim>\<open>serial_port\<close> before it emits, and \<^verbatim>\<open>disconnect\<close> stops the scan
  and closes the port before it emits.
\<close>

theorem read_failure_reported_before_stop:
  "effects scanning (read_serial_data (ReadFails ''device lost'') Ok scanning)
     = [ErrorOccurred ''Error reading serial data: device lost'', PortWrite stop_frame, TimerStop]
   \<and> \<not> occurs_before (PortWrite stop_frame)
         (ErrorOccurred ''Error reading serial data: device lost'')
         (effects scanning (read_serial_data (ReadFails ''device lost'') Ok scanning))
   \<and> \<not> occurs_before TimerStop
         (ErrorOccurred ''Error reading serial data: device lost'')
         (effects scanning (read_serial_data (ReadFails ''device lost'') Ok scanning))
   \<and> timer_active (emit (ErrorOccurred ''Error reading serial data: device lost'') scanning)
   \<and> scan_active (emit (ErrorOccurred ''Error reading serial data: device lost'') scanning)"
  by (simp add: scanning_eq handler_defs)

theorem read_failure_reported_before_stop_witness:
  "hd (effects scanning (read_serial_data (ReadFails ''device lost'') Ok scanning))
     = ErrorOccurred ''Error reading serial data: device lost''
   \<and> last (effects scanning (read_serial_data (ReadFails ''device lost'') Ok scanning))
     = TimerStop"
  using read_failure_reported_before_stop by simp

text \<open>
  C4.  For every state with the port open and a scan active, \<^verbatim>\<open>disconnect\<close> runs
  \<^verbatim>\<open>stop_scan\<close> first and closes the port after it: the effects of \<^verbatim>\<open>disconnect\<close> are those
  of \<^verbatim>\<open>stop_scan\<close>, which begin with the write of the stop frame, followed by the close and
  the status event.  The write comes before the close, no write comes after it, and the port
  is closed in the end.  This holds whether the write succeeds or raises.
\<close>

theorem disconnect_stops_scan_before_close:
  assumes "is_connected s" and "scan_active s"
  shows "effects s (disconnect wr s)
           = effects s (stop_scan wr s) @ [PortClose, ConnectionStatusChanged False [] []]
       \<and> effects s (stop_scan wr s)
           = [PortWrite stop_frame,
              (case wr of
                 Ok \<Rightarrow> TimerStop
               | Fails m \<Rightarrow> ErrorOccurred (''Error stopping scan: '' @ m))]
       \<and> occurs_before (PortWrite stop_frame) PortClose (effects s (disconnect wr s))
       \<and> \<not> occurs_before PortClose (PortWrite stop_frame) (effects s (disconnect wr s))
       \<and> \<not> is_connected (disconnect wr s)"
  using assms
  by (cases wr; cases "serial_port s")
    (simp_all add: disconnect_def stop_scan_def emit_def is_connected_def effects_def
      stop_frame_def)

theorem disconnect_stops_scan_before_close_witness:
  "is_connected scanning \<and> scan_active scanning
   \<and> effects scanning (disconnect Ok scanning)
       = [PortWrite stop_frame, TimerStop, PortClose, ConnectionStatusChanged False [] []]
   \<and> occurs_before (PortWrite stop_frame) PortClose (effects scanning (disconnect Ok scanning))"
proof -
  have c: "is_connected scanning" "scan_active scanning"
    using scanning_connected by simp_all
  note r = disconnect_stops_scan_before_close [OF c, of Ok]
  show ?thesis using c r by simp
qed

text \<open>
  C5.  Claimed: a data line delivered in two reads, \<^verbatim>\<open>d#500#\<close> and then \<^verbatim>\<open>800\<close> with its line
  feed, is reassembled into the sample (500, 800).  The handler keeps nothing between reads:
  after these two reads the store does not hold that sample.
\<close>

theorem split_line_counterexample:
  "\<not> (data_points (poll [(Line ''d#500#'', Ok), (Line (''800'' @ [LF]), Ok)] scanning)
        = [(500, 800)])"
  by (simp add: scanning_eq handler_defs str_defs)

text \<open>
  C5, amended.  Each read is decoded on its own; no part of a line is kept for the next
  read.  From every state with the port open, a scan active and the timer running: when the
  line is delivered in two successive reads, \<^verbatim>\<open>d#500#\<close> without line feed and then \<^verbatim>\<open>800\<close>
  with it, no sample is yielded and the store is as it was, whatever the writes do; when
  one read returns the whole line \<^verbatim>\<open>d#500#800\<close>, exactly one sample (500, 800) is yielded
  and appended to the store.
\<close>

theorem split_line_yields_no_sample:
  assumes "is_connected s" and "scan_active s" and "timer_active s"
  shows "data_points (poll [(Line ''d#500#'', w1), (Line (''800'' @ [LF]), w2)] s) = data_points s
       \<and> metrics (poll [(Line ''d#500#'', w1), (Line (''800'' @ [LF]), w2)] s) = metrics s
       \<and> filter is_sample
           (effects s (poll [(Line ''d#500#'', w1), (Line (''800'' @ [LF]), w2)] s)) = []
       \<and> data_points (poll [(Line (''d#500#800'' @ [LF]), w)] s) = data_points s @ [(500, 800)]
       \<and> filter is_sample (effects s (poll [(Line (''d#500#800'' @ [LF]), w)] s))
           = [DataReceived 500 800]"
  using assms
  by (cases w1; cases "serial_port s")
    (simp_all add: handler_defs str_defs is_sample_def)

theorem split_line_yields_no_sample_witness:
  "is_connected scanning \<and> scan_active scanning \<and> timer_active scanning
   \<and> data_points (poll [(Line ''d#500#'', Ok), (Line (''800'' @ [LF]), Ok)] scanning) = []
   \<and> data_points (poll [(Line (''d#500#800'' @ [LF]), Ok)] scanning) = [(500, 800)]"
proof -
  have c: "is_connected scanning" "scan_active scanning" "timer_active scanning"
    using scanning_connected by (simp_all add: scanning_eq)
  have d: "data_points scanning = []"
    by (simp add: scanning_eq)
  note r = split_line_yields_no_sample [OF c, of Ok Ok Ok]
  show ?thesis using c d r by simp
qed

text \<open>
  C6.  For the spectrum that consists of the one sample (500, 800) the metrics are
  peak_value 500, centroid 500, max_intensity 800, fwhm 0, snr 0 and auc 0; that is also the
  record the store holds after this sample is added to the empty store.
\<close>

theorem single_sample_metrics:
  "calculate_metrics [(500, 800)]
     = \<lparr>peak_value = 500, centroid = 500, max_intensity = 800, fwhm = 0, snr = 0, auc = 0\<rparr>
   \<and> metrics (add_data_point 500 800 init)
     = \<lparr>peak_value = 500, centroid = 500, max_intensity = 800, fwhm = 0, snr = 0, auc = 0\<rparr>"
  by (simp add: add_data_point_metrics init_def np_defs)

theorem single_sample_metrics_witness:
  "peak_value (calculate_metrics [(500, 800)]) = 500
   \<and> max_intensity (calculate_metrics [(500, 800)]) = 800
   \<and> auc (metrics (add_data_point 500 800 init)) = 0"
  using single_sample_metrics by simp

text \<open>
  C7.  Claimed: for every spectrum with more than one sample the auc metric is the
  trapezoidal integral of intensity over wavelength.  numpy computes the widths, the sums of
  neighbouring intensities and their products in int64, which wraps: for the two samples
  (-2147483648, 2147483647) and (2147483647, 2147483647) the product of width and intensity
  sum passes \<open>2 ^ 63\<close>, the auc metric is -6442450943, and the integral is
  9223372030412324865.
\<close>

theorem auc_overflow_counterexample:
  "auc (calculate_metrics [(- 2147483648, 2147483647), (2147483647, 2147483647)]) = - 6442450943
   \<and> trapezoidal_integral [(- 2147483648, 2147483647), (2147483647, 2147483647)]
       = 9223372030412324865
   \<and> auc (calculate_metrics [(- 2147483648, 2147483647), (2147483647, 2147483647)])
       \<noteq> trapezoidal_integral [(- 2147483648, 2147483647), (2147483647, 2147483647)]"
  by (simp add: np_defs)

text \<open>
  C7, amended.  Let the spectrum have \<open>n\<close> samples whose wavelengths and intensities are at
  most \<open>B\<close> in absolute value, with \<open>4 * B * B * n\<close> at most \<open>2 ^ 53\<close> (for a thousand samples,
  values up to about 1.5 million).  Then the auc metric is the trapezoidal integral of
  intensity over wavelength, taken over the samples in insertion order, if there is more
  than one sample, and 0 otherwise.  For every spectrum with at most one sample, of whatever
  size, the auc metric is 0.  For the samples (0,0), (1,10), (2,0) it is 10.
\<close>

theorem auc_is_trapezoidal_integral:
  assumes "bounded_by B ps" and "4 * B * B * int (length ps) \<le> 9007199254740992"
  shows "auc (calculate_metrics ps) = (if 1 < length ps then trapezoidal_integral ps else 0)
       \<and> (length qs \<le> 1 \<longrightarrow> auc (calculate_metrics qs) = 0)
       \<and> auc (calculate_metrics [(0, 0), (1, 10), (2, 0)]) = 10"
proof -
  have a: "auc (calculate_metrics ps) = (if 1 < length ps then trapezoidal_integral ps else 0)"
  proof (cases "1 < length ps")
    case True
    then have n2: "2 \<le> int (length ps)" by simp
    have BB0: "0 \<le> 4 * B * B" by (simp add: mult.assoc)
    have "4 * B * B * 2 \<le> 4 * B * B * int (length ps)"
      using n2 BB0 by (intro mult_left_mono) simp_all
    then have small: "4 * B * B \<le> 4503599627370496"
      using assms(2) by linarith
    have "np_trapezoid (map snd ps) (map fst ps) = trapezoidal_integral ps"
      using assms(1) small by (rule np_trapezoid_integral)
    then show ?thesis
      using True by (auto simp add: calculate_metrics_def Let_def)
  next
    case False
    then show ?thesis
      by (simp add: calculate_metrics_def Let_def reset_metrics_def)
  qed
  have b: "length qs \<le> 1 \<longrightarrow> auc (calculate_metrics qs) = 0"
    by (simp add: calculate_metrics_def Let_def reset_metrics_def)
  have c: "auc (calculate_metrics [(0, 0), (1, 10), (2, 0)]) = 10"
    by (simp add: np_defs)
  show ?thesis using a b c by simp
qed

theorem auc_is_trapezoidal_integral_witness:
  "bounded_by 1000 [(400, 0), (500, 800), (600, 100)]
   \<and> auc (calculate_metrics [(400, 0), (500, 800), (600, 100)]) = 85000
   \<and> auc (calculate_metrics [(7, 9)]) = 0"
proof -
  have h: "bounded_by 1000 [(400, 0), (500, 800), (600, 100)]"
    "4 * 1000 * 1000 * int (length [(400, 0), (500, 800), (600, 100 :: int) :: int \<times> int])
       \<le> 9007199254740992"
    by (simp_all add: bounded_by_def)
  note r = auc_is_trapezoidal_integral [OF h, of "[(7, 9)]"]
  show ?thesis using h(1) r by simp
qed

text \<open>
  C8.  In every state in which the port is not connected, \<^verbatim>\<open>start_scan\<close> returns
  \<^verbatim>\<open>False\<close> and its only effect is the error event "No serial connection available": the
  start frame is not written, the timer is not started, \<^verbatim>\<open>scan_active\<close> keeps its value, and
  the store (data points and metrics) is unchanged.
\<close>

theorem start_scan_not_connected:
  assumes "\<not> is_connected s"
  shows "start_scan wr s = (False, emit (ErrorOccurred ''No serial connection available'') s)
       \<and> effects s (snd (start_scan wr s)) = [ErrorOccurred ''No serial connection available'']
       \<and> data_points (snd (start_scan wr s)) = data_points s
       \<and> metrics (snd (start_scan wr s)) = metrics s
       \<and> scan_active (snd (start_scan wr s)) = scan_active s
       \<and> timer_active (snd (start_scan wr s)) = timer_active s
       \<and> serial_port (snd (start_scan wr s)) = serial_port s"
  using assms by (simp add: start_scan_def emit_def effects_def)

theorem start_scan_not_connected_witness:
  "\<not> is_connected init
   \<and> fst (start_scan Ok init) = False
   \<and> effects init (snd (start_scan Ok init)) = [ErrorOccurred ''No serial connection available'']
   \<and> data_points (snd (start_scan Ok init)) = []
   \<and> timer_active (snd (start_scan Ok init)) = False"
proof -
  have c: "\<not> is_connected init"
    by (simp add: init_def is_connected_def)
  have d: "data_points init = []" "timer_active init = False"
    by (simp_all add: init_def)
  note r = start_scan_not_connected [OF c, of Ok]
  have "fst (start_scan Ok init) = False"
    using r by simp
  then show ?thesis using c d r [THEN conjunct2] by simp
qed

text \<open>
  C9.  The fwhm metric can be strictly negative: the left and right ends are chosen by
  index, and the wavelengths need not increase.  The spectrum (600,100), (400,100) is not
  empty, its wavelengths are not in increasing order, and its fwhm is -200.
\<close>

theorem fwhm_can_be_negative:
  "fwhm (calculate_metrics [(600, 100), (400, 100)]) = - 200
   \<and> (\<exists>ps. ps \<noteq> [] \<and> \<not> sorted (map fst ps) \<and> fwhm (calculate_metrics ps) < 0)"
proof -
  have a: "fwhm (calculate_metrics [(600, 100), (400, 100)]) = - 200"
    by (simp add: np_defs)
  have "[(600, 100), (400, 100)] \<noteq> ([] :: (int \<times> int) list)
      \<and> \<not> sorted (map fst [(600, 100), (400, 100 :: int)] :: int list)
      \<and> fwhm (calculate_metrics [(600, 100), (400, 100)]) < 0"
    using a by simp
  then show ?thesis using a by blast
qed

theorem fwhm_can_be_negative_witness:
  "fwhm (calculate_metrics [(600, 100), (400, 100)]) < 0"
  using fwhm_can_be_negative by simp

text \<open>
  C10.  In every state in which a scan is active and the port is not open, \<^verbatim>\<open>stop_scan\<close>
  stops the timer and clears \<^verbatim>\<open>scan_active\<close>; its only effect is the timer stop: the stop
  frame is not written and no error is reported.
\<close>

theorem stop_scan_on_closed_port:
  assumes "scan_active s" and "\<not> is_connected s"
  shows "stop_scan wr s = (emit TimerStop s)\<lparr>timer_active := False, scan_active := False\<rparr>
       \<and> effects s (stop_scan wr s) = [TimerStop]
       \<and> \<not> scan_active (stop_scan wr s)
       \<and> \<not> timer_active (stop_scan wr s)"
  using assms by (simp add: stop_scan_def emit_def effects_def)

text \<open>
  Such a state is reached from the scanning state by a \<^verbatim>\<open>disconnect\<close> whose write of the
  stop frame raises: the port is closed while \<^verbatim>\<open>scan_active\<close> is still set.
\<close>

theorem stop_scan_on_closed_port_witness:
  "scan_active (disconnect (Fails ''write timeout'') scanning)
   \<and> \<not> is_connected (disconnect (Fails ''write timeout'') scanning)
   \<and> effects (disconnect (Fails ''write timeout'') scanning)
        (stop_scan Ok (disconnect (Fails ''write timeout'') scanning)) = [TimerStop]
   \<and> \<not> scan_active (stop_scan Ok (disconnect (Fails ''write timeout'') scanning))"
proof -
  have c: "scan_active (disconnect (Fails ''write timeout'') scanning)"
    "\<not> is_connected (disconnect (Fails ''write timeout'') scanning)"
    by (simp_all add: scanning_eq handler_defs)
  note r = stop_scan_on_closed_port [OF c, of Ok, THEN conjunct2]
  show ?thesis using c r by simp
qed

end
